theory Spec2Isabelle
  imports Main
begin

section \<open>Config.h: where ax expects the axlockd binary\<close>

text \<open>
  The header under verification is, in full:
  \<^verbatim>\<open>
  #ifdef AXLOCKD_PATH_VALUE
  static const char * const AXLOCKD_PATH = AXLOCKD_PATH_VALUE;
  #else
  static const char * const AXLOCKD_PATH = (const char *)0;
  #endif
  \<close>
  Its comment fixes how the macro is set: a C string literal passed through the
  compiler flags (\<^verbatim>\<open>-DAXLOCKD_PATH_VALUE='"/usr/local/libexec/axlockd"'\<close>),
  or not at all in development builds.
\<close>

subsection \<open>Values\<close>

text \<open>
  A value of type \<^verbatim>\<open>const char *\<close> in this header is either the null pointer
  \<^verbatim>\<open>(const char *)0\<close> or the address of the array a string literal denotes.
  The array is carried as its bytes, without the terminating zero.
\<close>

datatype const_char_ptr = NULL | StringLiteral string

text \<open>
  The build configuration, as far as this header reads it, is the macro
  \<^verbatim>\<open>AXLOCKD_PATH_VALUE\<close>: \<open>None\<close> when no definition reaches the
  preprocessor, \<open>Some s\<close> when it is defined as the string literal with bytes \<open>s\<close>.
\<close>

type_synonym build_configuration = "string option"

subsection \<open>The initializer selected by the preprocessor\<close>

text \<open>
  \<^verbatim>\<open>#ifdef\<close> tests only whether the macro is defined. The first branch
  initialises the constant with the macro's expansion, the second with the null pointer.
\<close>

definition AXLOCKD_PATH :: "build_configuration \<Rightarrow> const_char_ptr" where
  "AXLOCKD_PATH AXLOCKD_PATH_VALUE =
     (case AXLOCKD_PATH_VALUE of
        Some literal \<Rightarrow> StringLiteral literal
      | None \<Rightarrow> NULL)"

subsection \<open>The declaration under any definition of the macro\<close>




subsection \<open>The shape the specification gives the output\<close>

text \<open>
  The specification describes the output as "a non-empty absolute path string" or the
  absent value. The two definitions below follow those words, with an absolute path
  read as one that starts with a slash; they are what the code is compared with.
\<close>

definition absolute_path :: "string \<Rightarrow> bool" where
  "absolute_path s = (case s of [] \<Rightarrow> False | c # _ \<Rightarrow> c = CHR ''/'')"

definition spec_output_shape :: "const_char_ptr \<Rightarrow> bool" where
  "spec_output_shape p =
     (case p of NULL \<Rightarrow> True | StringLiteral s \<Rightarrow> s \<noteq> [] \<and> absolute_path s)"

section \<open>Properties\<close>

subsection \<open>The two branches\<close>

lemma AXLOCKD_PATH_defined: "AXLOCKD_PATH (Some s) = StringLiteral s"
  by (simp add: AXLOCKD_PATH_def)

lemma AXLOCKD_PATH_undefined: "AXLOCKD_PATH None = NULL"
  by (simp add: AXLOCKD_PATH_def)

lemma AXLOCKD_PATH_null_iff: "(AXLOCKD_PATH c = NULL) = (c = None)"
  by (cases c) (simp_all add: AXLOCKD_PATH_def)

lemma AXLOCKD_PATH_literal_iff: "(AXLOCKD_PATH c = StringLiteral s) = (c = Some s)"
  by (cases c) (simp_all add: AXLOCKD_PATH_def)

subsection \<open>The claims of the specification\<close>

text \<open>
  C1. When the macro is supplied with a non-empty string \<open>S\<close>, the resolved value
  is \<open>S\<close> exactly, byte for byte: nothing is trimmed, normalised or made canonical.
\<close>

theorem supplied_path_verbatim:
  "S \<noteq> [] \<Longrightarrow> AXLOCKD_PATH (Some S) = StringLiteral S"
  by (rule AXLOCKD_PATH_defined)

theorem supplied_path_verbatim_witness:
  "AXLOCKD_PATH (Some ''/usr/local/libexec/axlockd'') = StringLiteral ''/usr/local/libexec/axlockd''
   \<and> AXLOCKD_PATH (Some '' /opt//ax/../libexec/./axlockd/ '') = StringLiteral '' /opt//ax/../libexec/./axlockd/ ''"
proof -
  have a: "''/usr/local/libexec/axlockd'' \<noteq> []" by simp
  have b: "'' /opt//ax/../libexec/./axlockd/ '' \<noteq> []" by simp
  show ?thesis
    using supplied_path_verbatim [OF a] supplied_path_verbatim [OF b] by simp
qed

text \<open>
  C2. When the macro is omitted, the resolved value is the null pointer, the value the
  declaration gives it: it is not the empty string, nor any other string.
\<close>

theorem omitted_path_is_null:
  "AXLOCKD_PATH None = NULL
   \<and> AXLOCKD_PATH None \<noteq> StringLiteral []
   \<and> (\<forall>s. AXLOCKD_PATH None \<noteq> StringLiteral s)"
  by (simp add: AXLOCKD_PATH_undefined)

text \<open>
  C3, as the specification states it: the output is always a non-empty absolute path
  string or the absent value. The header checks nothing about the string it is given, so
  an empty or a relative string comes out as it went in, and has neither shape.
\<close>

theorem output_shape_counterexample:
  "\<not> spec_output_shape (AXLOCKD_PATH (Some ''''))
   \<and> \<not> spec_output_shape (AXLOCKD_PATH (Some ''bin/axlockd''))"
  by (simp add: AXLOCKD_PATH_def spec_output_shape_def absolute_path_def)

text \<open>
  C3, amended. The output is always one of exactly two things: the supplied string,
  unchanged, when the macro is defined, or the null pointer when it is not. It has the
  shape of the specification (a non-empty absolute path string, or absent) exactly when
  the macro is omitted or the supplied string starts with a slash.
\<close>

theorem output_shape:
  "((c = None \<and> AXLOCKD_PATH c = NULL) \<or> (\<exists>s. c = Some s \<and> AXLOCKD_PATH c = StringLiteral s))
   \<and> spec_output_shape (AXLOCKD_PATH c) = (c = None \<or> (\<exists>s. c = Some s \<and> absolute_path s))"
proof (cases c)
  case None
  then show ?thesis
    by (simp add: AXLOCKD_PATH_undefined spec_output_shape_def)
next
  case (Some s)
  have "spec_output_shape (StringLiteral s) = absolute_path s"
    by (cases s) (simp_all add: spec_output_shape_def absolute_path_def)
  then show ?thesis
    using Some by (simp add: AXLOCKD_PATH_defined)
qed

theorem output_shape_witness:
  "spec_output_shape (AXLOCKD_PATH (Some ''/usr/local/libexec/axlockd''))
   \<and> spec_output_shape (AXLOCKD_PATH None)
   \<and> AXLOCKD_PATH (Some ''bin/axlockd'') = StringLiteral ''bin/axlockd''"
proof -
  have "absolute_path ''/usr/local/libexec/axlockd''"
    by (simp add: absolute_path_def)
  then have installed: "spec_output_shape (AXLOCKD_PATH (Some ''/usr/local/libexec/axlockd''))"
    using output_shape [of "Some ''/usr/local/libexec/axlockd''"] by blast
  have omitted: "spec_output_shape (AXLOCKD_PATH None)"
    using output_shape [of None] by blast
  have relative: "AXLOCKD_PATH (Some ''bin/axlockd'') = StringLiteral ''bin/axlockd''"
    using output_shape [of "Some ''bin/axlockd''"] by blast
  show ?thesis
    using installed omitted relative by blast
qed

text \<open>
  C4. A macro defined as the empty string literal resolves to exactly the empty string,
  which is present and not the null pointer; and the null pointer of a build without the
  macro differs from the result of every build with it, the empty string included.
\<close>

theorem empty_string_is_present:
  "AXLOCKD_PATH (Some '''') = StringLiteral ''''
   \<and> AXLOCKD_PATH (Some '''') \<noteq> NULL
   \<and> AXLOCKD_PATH None \<noteq> AXLOCKD_PATH (Some '''')
   \<and> (\<forall>s. AXLOCKD_PATH None \<noteq> AXLOCKD_PATH (Some s))
   \<and> (\<forall>s. AXLOCKD_PATH None \<noteq> StringLiteral s)"
  by (simp add: AXLOCKD_PATH_defined AXLOCKD_PATH_undefined)




text \<open>
  C9. The header does not check that the string is an absolute path. Every supplied
  string, a relative path or arbitrary text included, is the resolved value unchanged,
  is present rather than null, and distinct strings stay distinct.
\<close>

theorem no_absoluteness_check:
  "AXLOCKD_PATH (Some s) = StringLiteral s
   \<and> AXLOCKD_PATH (Some s) \<noteq> NULL
   \<and> (AXLOCKD_PATH (Some s) = AXLOCKD_PATH (Some t)) = (s = t)"
  by (simp add: AXLOCKD_PATH_defined)

theorem no_absoluteness_check_witness:
  "\<not> absolute_path ''bin/ax lockd''
   \<and> AXLOCKD_PATH (Some ''bin/ax lockd'') = StringLiteral ''bin/ax lockd''
   \<and> AXLOCKD_PATH (Some ''bin/ax lockd'') \<noteq> NULL
   \<and> AXLOCKD_PATH (Some ''not a path at all'') = StringLiteral ''not a path at all''"
  using no_absoluteness_check [of "''bin/ax lockd''" "''''"]
    no_absoluteness_check [of "''not a path at all''" "''''"]
  by (simp add: absolute_path_def)

text \<open>
  C10. Present or absent depends only on whether the macro is defined. The result is
  null exactly when the macro is undefined and a string exactly when it is defined;
  every supplied string \<open>S\<close>, the empty one included, is present with value \<open>S\<close>;
  and exactly one of the two outcomes holds in every build configuration.
\<close>

theorem presence_follows_definedness:
  "(AXLOCKD_PATH c = NULL) = (c = None)
   \<and> (\<exists>s. AXLOCKD_PATH c = StringLiteral s) = (\<exists>s. c = Some s)
   \<and> AXLOCKD_PATH (Some S) = StringLiteral S
   \<and> AXLOCKD_PATH (Some S) \<noteq> NULL
   \<and> AXLOCKD_PATH (Some []) \<noteq> NULL
   \<and> (AXLOCKD_PATH c = NULL) \<noteq> (\<exists>s. AXLOCKD_PATH c = StringLiteral s)"
proof -
  have null: "(AXLOCKD_PATH c = NULL) = (c = None)"
    by (rule AXLOCKD_PATH_null_iff)
  have literal: "(\<exists>s. AXLOCKD_PATH c = StringLiteral s) = (\<exists>s. c = Some s)"
    by (simp add: AXLOCKD_PATH_literal_iff)
  have exclusive: "(AXLOCKD_PATH c = NULL) \<noteq> (\<exists>s. AXLOCKD_PATH c = StringLiteral s)"
    unfolding null literal by (cases c) simp_all
  show ?thesis
    using null literal exclusive by (simp add: AXLOCKD_PATH_defined)
qed

end
